theory Spec2Isabelle
  imports Main "HOL-Library.Word" "HOL-Library.Sublist"
begin

section \<open>The C data of \<^verbatim>\<open>sysctl.c\<close>\<close>

text \<open>
  \<^verbatim>\<open>iphd_sysctl_is_waiting\<close> works on C \<^verbatim>\<open>char\<close> and \<^verbatim>\<open>int\<close> values: a
  \<^verbatim>\<open>char\<close> is one byte, an \<^verbatim>\<open>int\<close> is 32 bits and read as two's complement
  (\<open>sint\<close>) wherever the source compares it.
\<close>

type_synonym byte = "8 word"
type_synonym c_int = "32 word"

text \<open>
  The function includes \<^verbatim>\<open><sys/sysctl.h>\<close> and \<^verbatim>\<open><sys/user.h>\<close>, which are platform
  headers and not part of the source tree. What the function takes from them is kept
  as a parameter: the three selector constants, the length bound of a wait message
  (\<^verbatim>\<open>char ki_wmesg[WMESGLEN + 1]\<close>), the size of \<^verbatim>\<open>struct kinfo_proc\<close>, and whether
  plain \<^verbatim>\<open>char\<close> is signed.
\<close>

record platform =
  CTL_KERN :: c_int
  KERN_PROC :: c_int
  KERN_PROC_PID :: c_int
  WMESGLEN :: nat
  sizeof_kinfo_proc :: nat
  char_signed :: bool

text \<open>
  Of \<^verbatim>\<open>struct kinfo_proc\<close> the function reads two members, \<^verbatim>\<open>char ki_stat\<close> and the
  array \<^verbatim>\<open>char ki_wmesg[WMESGLEN + 1]\<close>; the record keeps those. The array is a list
  of bytes, and \<open>kinfo_wf\<close> says that it has the declared number of elements.
\<close>

record kinfo_proc =
  ki_stat :: byte
  ki_wmesg :: "byte list"

definition kinfo_wf :: "platform \<Rightarrow> kinfo_proc \<Rightarrow> bool" where
  "kinfo_wf P k \<longleftrightarrow> length (ki_wmesg k) = WMESGLEN P + 1"

text \<open>The integer promotion of a \<^verbatim>\<open>char\<close> object, as in \<^verbatim>\<open>kip.ki_stat == 'S'\<close>.\<close>

definition char_to_int :: "platform \<Rightarrow> byte \<Rightarrow> int" where
  "char_to_int P b = (if char_signed P then sint b else uint b)"

text \<open>A character constant such as \<^verbatim>\<open>'S'\<close> has type \<^verbatim>\<open>int\<close>.\<close>

definition c_char :: "char \<Rightarrow> int" where
  "c_char c = int (of_char c)"

text \<open>A string literal such as \<^verbatim>\<open>"ttyin"\<close> is its characters followed by a NUL byte.\<close>

definition c_string_literal :: "string \<Rightarrow> byte list" where
  "c_string_literal s = map (\<lambda>c. of_nat (of_char c)) s @ [0]"

section \<open>\<^verbatim>\<open>strcmp\<close>\<close>

text \<open>
  \<^verbatim>\<open>strcmp\<close> walks both arrays from the front, compares the bytes as
  \<^verbatim>\<open>unsigned char\<close>, and stops at the first difference or at a NUL byte present in
  both. Reading beyond the last element of either array is a fault of the program.
\<close>

datatype fault = OutOfBounds

fun strcmp :: "byte list \<Rightarrow> byte list \<Rightarrow> fault + int" where
  "strcmp [] _ = Inl OutOfBounds"
| "strcmp (a # as) [] = Inl OutOfBounds"
| "strcmp (a # as) (b # bs) =
     (if a \<noteq> b then Inr (uint a - uint b)
      else if a = 0 then Inr 0
      else strcmp as bs)"

section \<open>The \<^verbatim>\<open>sysctl\<close> system call\<close>

text \<open>
  \<^verbatim>\<open>sysctl(name, namelen, oldp, oldlenp, newp, newlen)\<close> is the one call the function
  makes. A request carries the selector vector, the contents of the buffer behind
  \<^verbatim>\<open>oldp\<close> at the time of the call, the length behind \<^verbatim>\<open>oldlenp\<close>, and the new value
  (\<open>None\<close> for a \<^verbatim>\<open>NULL\<close> pointer) with its length. A response carries the return
  code, the contents of the buffer after the call and the length the kernel stored
  behind \<^verbatim>\<open>oldlenp\<close>. The kernel is a parameter: a function from its own state and a
  request to a response and its next state.
\<close>

record sysctl_req =
  req_name :: "c_int list"
  req_namelen :: nat
  req_old :: kinfo_proc
  req_oldlen :: nat
  req_new :: "byte list option"
  req_newlen :: nat

record sysctl_resp =
  resp_err :: c_int
  resp_old :: kinfo_proc
  resp_oldlen :: nat

type_synonym 'k sysctl = "'k \<Rightarrow> sysctl_req \<Rightarrow> sysctl_resp \<times> 'k"

section \<open>\<^verbatim>\<open>iphd_sysctl_is_waiting\<close>\<close>

text \<open>
  The request the function builds: \<^verbatim>\<open>addr[0..3]\<close>, the length 4, the local
  \<^verbatim>\<open>kip\<close> with \<^verbatim>\<open>kipsz = sizeof(kip)\<close>, and \<^verbatim>\<open>NULL, 0\<close> for the new value. The
  local \<^verbatim>\<open>kip\<close> is not initialised before the call, so what it holds then is an
  argument of the model (\<open>kip0\<close>).
\<close>

definition iphd_request :: "platform \<Rightarrow> kinfo_proc \<Rightarrow> c_int \<Rightarrow> sysctl_req" where
  "iphd_request P kip0 pid =
     \<lparr> req_name = [CTL_KERN P, KERN_PROC P, KERN_PROC_PID P, pid],
       req_namelen = 4,
       req_old = kip0,
       req_oldlen = sizeof_kinfo_proc P,
       req_new = None,
       req_newlen = 0 \<rparr>"

text \<open>
  The function itself. \<^verbatim>\<open>err < 0\<close> returns 0; otherwise the result is
  \<^verbatim>\<open>kip.ki_stat == 'S' && !strcmp(kip.ki_wmesg, "ttyin")\<close>, where \<^verbatim>\<open>&&\<close> evaluates
  its right operand only when the left one holds. The length stored behind
  \<^verbatim>\<open>&kipsz\<close> is not read again.
\<close>

definition iphd_sysctl_is_waiting ::
  "platform \<Rightarrow> 'k sysctl \<Rightarrow> kinfo_proc \<Rightarrow> c_int \<Rightarrow> 'k \<Rightarrow> (fault + c_int) \<times> 'k" where
  "iphd_sysctl_is_waiting P sysctl kip0 pid s =
     (let (r, s') = sysctl s (iphd_request P kip0 pid);
          err = resp_err r;
          kip = resp_old r
      in if sint err < 0 then (Inr 0, s')
         else if char_to_int P (ki_stat kip) = c_char CHR ''S'' then
           (case strcmp (ki_wmesg kip) (c_string_literal ''ttyin'') of
              Inl f \<Rightarrow> (Inl f, s')
            | Inr d \<Rightarrow> (Inr (if d = 0 then 1 else 0), s'))
         else (Inr 0, s'))"

section \<open>The vocabulary of the specification\<close>

text \<open>
  The specification speaks of a snapshot's \<open>sleepState\<close> and \<open>waitLabel\<close>, of the
  "sleeping" category code and of the terminal-input label. The wait label is the text
  the array holds: its bytes up to the first NUL, or the whole array when there is none.
\<close>

definition sleepState :: "kinfo_proc \<Rightarrow> byte" where
  "sleepState k = ki_stat k"

definition waitLabel :: "kinfo_proc \<Rightarrow> byte list" where
  "waitLabel k = takeWhile (\<lambda>b. b \<noteq> 0) (ki_wmesg k)"

definition text_bytes :: "string \<Rightarrow> byte list" where
  "text_bytes t = map (\<lambda>c. of_nat (of_char c)) t"

definition sleeping_code :: byte where
  "sleeping_code = of_nat (of_char CHR ''S'')"

definition terminal_input_label :: "byte list" where
  "terminal_input_label = text_bytes ''ttyin''"

definition spec_isWaitingOnTerminalInput :: "kinfo_proc \<Rightarrow> bool" where
  "spec_isWaitingOnTerminalInput k \<longleftrightarrow>
     sleepState k = sleeping_code \<and> waitLabel k = terminal_input_label"

section \<open>Concrete platforms, snapshots and kernels\<close>

text \<open>
  A platform on which the function can be evaluated: wait messages of at most eight
  characters and a signed \<^verbatim>\<open>char\<close>.
\<close>

definition freebsd :: platform where
  "freebsd = \<lparr> CTL_KERN = 1, KERN_PROC = 14, KERN_PROC_PID = 1, WMESGLEN = 8,
               sizeof_kinfo_proc = 1088, char_signed = True \<rparr>"

text \<open>A snapshot with the state character \<open>c\<close> and the message \<open>m\<close>, padded with NUL bytes
  to the nine elements of the array.\<close>

definition snapshot :: "char \<Rightarrow> string \<Rightarrow> kinfo_proc" where
  "snapshot c m = \<lparr> ki_stat = of_nat (of_char c),
                    ki_wmesg = text_bytes m @ replicate (9 - length m) 0 \<rparr>"

text \<open>A kernel that returns the code \<open>e\<close> and fills the buffer with the snapshot \<open>k\<close>.\<close>

definition replies :: "c_int \<Rightarrow> kinfo_proc \<Rightarrow> 'k sysctl" where
  "replies e k s q = (\<lparr> resp_err = e, resp_old = k, resp_oldlen = req_oldlen q \<rparr>, s)"

text \<open>A kernel that returns 0, stores the length 0 and leaves the buffer as it found it:
  the answer for a process that is gone, on a kernel that does not report the missing
  process as an error.\<close>

definition writes_nothing :: "'k sysctl" where
  "writes_nothing s q = (\<lparr> resp_err = 0, resp_old = req_old q, resp_oldlen = 0 \<rparr>, s)"

text \<open>A kernel whose state counts the requests that carried a new value.\<close>

definition counts_new_values :: "kinfo_proc \<Rightarrow> nat sysctl" where
  "counts_new_values k n q =
     (\<lparr> resp_err = 0, resp_old = k, resp_oldlen = req_oldlen q \<rparr>,
      if req_new q = None \<and> req_newlen q = 0 then n else Suc n)"

text \<open>A kernel whose state is a process table. A request for a process of the table fills
  the buffer with the snapshot of that process. For a process that is not in the table
  the kernel returns 0, stores the length 0 and writes nothing, as \<open>writes_nothing\<close>
  does. A request that does not name four selectors is an error. The table is left as
  it is.\<close>

definition process_table :: "(c_int \<times> kinfo_proc) list sysctl" where
  "process_table tbl q =
     (case req_name q of
        [c0, c1, c2, pid] \<Rightarrow>
          (case map_of tbl pid of
             Some k \<Rightarrow> (\<lparr> resp_err = 0, resp_old = k, resp_oldlen = req_oldlen q \<rparr>, tbl)
           | None \<Rightarrow> (\<lparr> resp_err = 0, resp_old = req_old q, resp_oldlen = 0 \<rparr>, tbl))
      | _ \<Rightarrow> (\<lparr> resp_err = - 1, resp_old = req_old q, resp_oldlen = 0 \<rparr>, tbl))"

section \<open>Auxiliary facts\<close>

lemma uint_eq_byte: "uint (a::byte) = uint b \<longleftrightarrow> a = b"
  by (simp add: word_uint_eq_iff)

text \<open>Against a literal, \<open>strcmp\<close> ends inside an array that is longer than the
  literal's text, and answers 0 exactly when the array's text is the literal's.\<close>

lemma strcmp_literal_total:
  "0 \<notin> set t \<Longrightarrow> length t < length a \<Longrightarrow>
   \<exists>d. strcmp a (t @ [0]) = Inr d \<and> (d = 0 \<longleftrightarrow> takeWhile (\<lambda>b. b \<noteq> 0) a = t)"
proof (induction t arbitrary: a)
  case Nil
  then obtain x xs where a: "a = x # xs" by (cases a) auto
  show ?case by (auto simp: a uint_eq_byte uint_0_iff)
next
  case (Cons y t)
  then obtain x xs where a: "a = x # xs" by (cases a) auto
  from Cons.prems have y: "y \<noteq> 0" and t: "0 \<notin> set t" and l: "length t < length xs"
    by (auto simp: a)
  from Cons.IH [OF t l] show ?case
    using y by (auto simp: a uint_eq_byte uint_0_iff)
qed

text \<open>Whatever the array's length, the answer 0 means that the array starts with the
  literal, terminator included.\<close>

lemma strcmp_literal_zero:
  "0 \<notin> set t \<Longrightarrow> strcmp a (t @ [0]) = Inr 0 \<longleftrightarrow> take (Suc (length t)) a = t @ [0]"
proof (induction t arbitrary: a)
  case Nil
  show ?case by (cases a) (auto simp: uint_eq_byte uint_0_iff)
next
  case (Cons y t)
  then have y: "y \<noteq> 0" and t: "0 \<notin> set t" by auto
  show ?case
  proof (cases a)
    case Nil
    then show ?thesis by simp
  next
    case (Cons x xs)
    with Cons.IH [OF t, of xs] y show ?thesis
      by (auto simp: uint_eq_byte uint_0_iff)
  qed
qed

text \<open>The comparison with \<^verbatim>\<open>'S'\<close> holds for the byte 0x53 alone, signed \<^verbatim>\<open>char\<close> or not.\<close>

lemma char_to_int_S: "char_to_int P b = c_char CHR ''S'' \<longleftrightarrow> b = 0x53"
proof -
  have s: "sint b = 83 \<longleftrightarrow> b = 0x53"
  proof
    assume "sint b = 83"
    then have "word_of_int (sint b) = (word_of_int 83 :: byte)" by simp
    then show "b = 0x53" by simp
  next
    assume "b = 0x53" then show "sint b = 83" by simp
  qed
  have u: "uint b = 83 \<longleftrightarrow> b = 0x53"
  proof
    assume "uint b = 83"
    then have "word_of_int (uint b) = (word_of_int 83 :: byte)" by simp
    then show "b = 0x53" by simp
  next
    assume "b = 0x53" then show "uint b = 83" by simp
  qed
  show ?thesis by (simp add: char_to_int_def c_char_def s u)
qed

lemma ttyin_literal: "c_string_literal ''ttyin'' = [0x74, 0x74, 0x79, 0x69, 0x6E] @ [0]"
  by (simp add: c_string_literal_def)

lemma ttyin_label: "terminal_input_label = [0x74, 0x74, 0x79, 0x69, 0x6E]"
  by (simp add: terminal_input_label_def text_bytes_def)

lemma sleeping_code_S: "sleeping_code = 0x53"
  by (simp add: sleeping_code_def)

text \<open>The function in terms of the response to its one request.\<close>

lemma iphd_answer:
  "fst (iphd_sysctl_is_waiting P K kip0 pid s) =
     (let r = fst (K s (iphd_request P kip0 pid))
      in if sint (resp_err r) < 0 then Inr 0
         else if ki_stat (resp_old r) = 0x53 then
           (case strcmp (ki_wmesg (resp_old r)) ([0x74, 0x74, 0x79, 0x69, 0x6E] @ [0]) of
              Inl f \<Rightarrow> Inl f
            | Inr d \<Rightarrow> Inr (if d = 0 then 1 else 0))
         else Inr 0)"
  by (cases "K s (iphd_request P kip0 pid)")
     (simp add: iphd_sysctl_is_waiting_def Let_def char_to_int_S ttyin_literal
        split: sum.split)

lemma iphd_state:
  "snd (iphd_sysctl_is_waiting P K kip0 pid s) = snd (K s (iphd_request P kip0 pid))"
  by (cases "K s (iphd_request P kip0 pid)")
     (simp add: iphd_sysctl_is_waiting_def Let_def split: sum.split)

lemma classify_wf:
  assumes "kinfo_wf P k" and "5 \<le> WMESGLEN P"
  shows "\<exists>d. strcmp (ki_wmesg k) ([0x74, 0x74, 0x79, 0x69, 0x6E] @ [0]) = Inr d \<and>
             (d = 0 \<longleftrightarrow> waitLabel k = terminal_input_label)"
proof -
  have "length [0x74, 0x74, 0x79, 0x69, 0x6E :: byte] < length (ki_wmesg k)"
    using assms by (simp add: kinfo_wf_def)
  moreover have "0 \<notin> set [0x74, 0x74, 0x79, 0x69, 0x6E :: byte]" by simp
  ultimately show ?thesis
    unfolding waitLabel_def ttyin_label by (rule strcmp_literal_total [rotated])
qed

text \<open>Two snapshots, element by element.\<close>

lemma snapshot_sleeping_ttyin:
  "snapshot CHR ''S'' ''ttyin''
     = \<lparr> ki_stat = 0x53, ki_wmesg = [0x74, 0x74, 0x79, 0x69, 0x6E, 0, 0, 0, 0] \<rparr>"
proof -
  have pad: "replicate (9 - length ''ttyin'') (0 :: byte) = [0, 0, 0, 0]"
    by (simp add: eval_nat_numeral)
  show ?thesis
    unfolding snapshot_def pad by (simp add: text_bytes_def)
qed

lemma snapshot_running_empty:
  "snapshot CHR ''R'' [] = \<lparr> ki_stat = 0x52, ki_wmesg = [0, 0, 0, 0, 0, 0, 0, 0, 0] \<rparr>"
proof -
  have pad: "replicate (9 - length ([] :: string)) (0 :: byte) = [0, 0, 0, 0, 0, 0, 0, 0, 0]"
    by (simp add: eval_nat_numeral)
  show ?thesis
    unfolding snapshot_def pad by (simp add: text_bytes_def)
qed

section \<open>Classification of a retrieved snapshot\<close>

text \<open>
  C1. When the request succeeds (the return code is not negative), the function answers
  true (1) if and only if the snapshot's sleep state is the "sleeping" code and its wait
  label is exactly the terminal-input label; every other combination of the two fields
  gives false (0). The snapshot is the buffer as the call left it, with the wait-message
  array of the declared length, on a platform whose wait messages can be five
  characters long.
\<close>

theorem iphd_classifies_snapshot:
  assumes "K s (iphd_request P kip0 pid) = (r, s')"
    and "\<not> sint (resp_err r) < 0"
    and "kinfo_wf P (resp_old r)"
    and "5 \<le> WMESGLEN P"
  shows "fst (iphd_sysctl_is_waiting P K kip0 pid s) =
           Inr (if spec_isWaitingOnTerminalInput (resp_old r) then 1 else 0)"
proof -
  have r: "fst (K s (iphd_request P kip0 pid)) = r"
    using assms(1) by simp
  obtain d where d: "strcmp (ki_wmesg (resp_old r)) ([0x74, 0x74, 0x79, 0x69, 0x6E] @ [0]) = Inr d"
    and z: "d = 0 \<longleftrightarrow> waitLabel (resp_old r) = terminal_input_label"
    using classify_wf [OF assms(3,4)] by blast
  show ?thesis
    using assms(2) d z
    by (simp add: iphd_answer Let_def r spec_isWaitingOnTerminalInput_def
        sleepState_def sleeping_code_S)
qed

theorem iphd_classifies_snapshot_witness:
  "replies 0 (snapshot CHR ''S'' ''ttyin'') () (iphd_request freebsd (snapshot CHR ''R'' []) 42)
     = (\<lparr> resp_err = 0, resp_old = snapshot CHR ''S'' ''ttyin'', resp_oldlen = 1088 \<rparr>, ())
   \<and> \<not> sint (0 :: c_int) < 0
   \<and> kinfo_wf freebsd (snapshot CHR ''S'' ''ttyin'')
   \<and> 5 \<le> WMESGLEN freebsd
   \<and> spec_isWaitingOnTerminalInput (snapshot CHR ''S'' ''ttyin'')
   \<and> fst (iphd_sysctl_is_waiting freebsd (replies 0 (snapshot CHR ''S'' ''ttyin''))
            (snapshot CHR ''R'' []) 42 ()) = Inr 1"
proof -
  let ?k = "snapshot CHR ''S'' ''ttyin''"
  let ?r = "\<lparr> resp_err = 0, resp_old = ?k, resp_oldlen = 1088 \<rparr>"
  have h1: "replies 0 ?k () (iphd_request freebsd (snapshot CHR ''R'' []) 42) = (?r, ())"
    by (simp add: replies_def iphd_request_def freebsd_def)
  have h2: "\<not> sint (resp_err ?r) < 0" by simp
  have h3: "kinfo_wf freebsd (resp_old ?r)"
    by (simp add: kinfo_wf_def snapshot_def freebsd_def text_bytes_def)
  have h4: "5 \<le> WMESGLEN freebsd" by (simp add: freebsd_def)
  have sp: "spec_isWaitingOnTerminalInput ?k"
    by (simp add: spec_isWaitingOnTerminalInput_def sleepState_def waitLabel_def
        sleeping_code_def terminal_input_label_def snapshot_def text_bytes_def)
  show ?thesis
    using iphd_classifies_snapshot [where K = "replies 0 ?k" and s = "()" and P = freebsd
        and ?kip0.0 = "snapshot CHR ''R'' []" and pid = 42 and r = ?r and s' = "()",
        OF h1 h2 h3 h4] h1 h3 h4 sp
    by simp
qed

text \<open>
  C5. The wait label is compared for equality: a snapshot retrieved by a successful
  request whose wait label is a proper prefix of the terminal-input label, or properly
  contains the label, is answered with false (0).
\<close>

theorem iphd_label_exact_match:
  assumes "K s (iphd_request P kip0 pid) = (r, s')"
    and "\<not> sint (resp_err r) < 0"
    and "kinfo_wf P (resp_old r)"
    and "5 \<le> WMESGLEN P"
    and "strict_prefix (waitLabel (resp_old r)) terminal_input_label
         \<or> (sublist terminal_input_label (waitLabel (resp_old r))
            \<and> waitLabel (resp_old r) \<noteq> terminal_input_label)"
  shows "fst (iphd_sysctl_is_waiting P K kip0 pid s) = Inr 0"
proof -
  have r: "fst (K s (iphd_request P kip0 pid)) = r"
    using assms(1) by simp
  have ne: "waitLabel (resp_old r) \<noteq> terminal_input_label"
    using assms(5) by (auto simp: strict_prefix_def)
  obtain d where d: "strcmp (ki_wmesg (resp_old r)) ([0x74, 0x74, 0x79, 0x69, 0x6E] @ [0]) = Inr d"
    and z: "d = 0 \<longleftrightarrow> waitLabel (resp_old r) = terminal_input_label"
    using classify_wf [OF assms(3,4)] by blast
  show ?thesis
    using d z ne by (simp add: iphd_answer Let_def r)
qed


theorem iphd_label_exact_match_witness:
  "strict_prefix (waitLabel (snapshot CHR ''S'' ''tty'')) terminal_input_label
   \<and> fst (iphd_sysctl_is_waiting freebsd (replies 0 (snapshot CHR ''S'' ''tty''))
            (snapshot CHR ''R'' []) 42 ()) = Inr 0
   \<and> sublist terminal_input_label (waitLabel (snapshot CHR ''S'' ''ttyinx''))
   \<and> waitLabel (snapshot CHR ''S'' ''ttyinx'') \<noteq> terminal_input_label
   \<and> fst (iphd_sysctl_is_waiting freebsd (replies 0 (snapshot CHR ''S'' ''ttyinx''))
            (snapshot CHR ''R'' []) 42 ()) = Inr 0"
proof -
  let ?a = "snapshot CHR ''S'' ''tty''"
  let ?b = "snapshot CHR ''S'' ''ttyinx''"
  let ?ra = "\<lparr> resp_err = 0, resp_old = ?a, resp_oldlen = 1088 \<rparr>"
  let ?rb = "\<lparr> resp_err = 0, resp_old = ?b, resp_oldlen = 1088 \<rparr>"
  have a1: "replies 0 ?a () (iphd_request freebsd (snapshot CHR ''R'' []) 42) = (?ra, ())"
    by (simp add: replies_def iphd_request_def freebsd_def)
  have b1: "replies 0 ?b () (iphd_request freebsd (snapshot CHR ''R'' []) 42) = (?rb, ())"
    by (simp add: replies_def iphd_request_def freebsd_def)
  have a2: "\<not> sint (resp_err ?ra) < 0" and b2: "\<not> sint (resp_err ?rb) < 0"
    by simp_all
  have a3: "kinfo_wf freebsd (resp_old ?ra)" and b3: "kinfo_wf freebsd (resp_old ?rb)"
    by (simp_all add: kinfo_wf_def snapshot_def freebsd_def text_bytes_def)
  have p4: "5 \<le> WMESGLEN freebsd" by (simp add: freebsd_def)
  have la: "waitLabel ?a = [0x74, 0x74, 0x79]"
    by (simp add: waitLabel_def snapshot_def text_bytes_def)
  have lb: "waitLabel ?b = terminal_input_label @ [0x78]"
    by (simp add: waitLabel_def snapshot_def text_bytes_def ttyin_label)
  have a5: "strict_prefix (waitLabel ?a) terminal_input_label"
    by (simp add: la ttyin_label)
  have b5: "sublist terminal_input_label (waitLabel ?b)"
    unfolding lb by (rule prefix_imp_sublist) simp
  have b6: "waitLabel ?b \<noteq> terminal_input_label"
    by (simp add: lb)
  have ra: "fst (iphd_sysctl_is_waiting freebsd (replies 0 ?a) (snapshot CHR ''R'' []) 42 ())
              = Inr 0"
    using a5
    by (intro iphd_label_exact_match [where K = "replies 0 ?a" and s = "()" and r = ?ra
          and s' = "()", OF a1 a2 a3 p4]) simp
  have rb: "fst (iphd_sysctl_is_waiting freebsd (replies 0 ?b) (snapshot CHR ''R'' []) 42 ())
              = Inr 0"
    using b5 b6
    by (intro iphd_label_exact_match [where K = "replies 0 ?b" and s = "()" and r = ?rb
          and s' = "()", OF b1 b2 b3 p4]) simp
  show ?thesis
    using a5 ra b5 b6 rb by simp
qed

text \<open>
  C6. A snapshot retrieved by a successful request whose sleep state is not the
  "sleeping" code is answered with false (0), whatever the wait-message array holds.
\<close>

theorem iphd_wrong_state_false:
  assumes "K s (iphd_request P kip0 pid) = (r, s')"
    and "\<not> sint (resp_err r) < 0"
    and "sleepState (resp_old r) \<noteq> sleeping_code"
  shows "fst (iphd_sysctl_is_waiting P K kip0 pid s) = Inr 0"
proof -
  have r: "fst (K s (iphd_request P kip0 pid)) = r"
    using assms(1) by simp
  show ?thesis
    using assms(2,3) by (simp add: iphd_answer Let_def r sleepState_def sleeping_code_S)
qed


theorem iphd_wrong_state_false_witness:
  "\<not> sint (0 :: c_int) < 0
   \<and> sleepState (snapshot CHR ''R'' ''ttyin'') \<noteq> sleeping_code
   \<and> waitLabel (snapshot CHR ''R'' ''ttyin'') = terminal_input_label
   \<and> fst (iphd_sysctl_is_waiting freebsd (replies 0 (snapshot CHR ''R'' ''ttyin''))
            (snapshot CHR ''S'' ''ttyin'') 42 ()) = Inr 0"
proof -
  let ?k = "snapshot CHR ''R'' ''ttyin''"
  let ?r = "\<lparr> resp_err = 0, resp_old = ?k, resp_oldlen = 1088 \<rparr>"
  have h1: "replies 0 ?k () (iphd_request freebsd (snapshot CHR ''S'' ''ttyin'') 42) = (?r, ())"
    by (simp add: replies_def iphd_request_def freebsd_def)
  have h2: "\<not> sint (resp_err ?r) < 0" by simp
  have st: "sleepState ?k \<noteq> sleeping_code"
    by (simp add: sleepState_def sleeping_code_def snapshot_def)
  then have h3: "sleepState (resp_old ?r) \<noteq> sleeping_code" by simp
  have lb: "waitLabel ?k = terminal_input_label"
    by (simp add: waitLabel_def snapshot_def text_bytes_def terminal_input_label_def)
  show ?thesis
    using iphd_wrong_state_false [where K = "replies 0 ?k" and s = "()" and r = ?r
        and s' = "()", OF h1 h2 h3] st lb
    by simp
qed

text \<open>
  C9. The constants are fixed in the code: the answer is 1 exactly when the request did
  not fail, the \<^verbatim>\<open>ki_stat\<close> byte is the character \<^verbatim>\<open>S\<close> (0x53) and the
  \<^verbatim>\<open>ki_wmesg\<close> array starts with the five characters \<^verbatim>\<open>ttyin\<close>
  (0x74 0x74 0x79 0x69 0x6E) and the terminating NUL.
\<close>

theorem iphd_constants:
  assumes "K s (iphd_request P kip0 pid) = (r, s')"
  shows "fst (iphd_sysctl_is_waiting P K kip0 pid s) = Inr 1 \<longleftrightarrow>
           \<not> sint (resp_err r) < 0
           \<and> ki_stat (resp_old r) = 0x53
           \<and> take 6 (ki_wmesg (resp_old r)) = [0x74, 0x74, 0x79, 0x69, 0x6E, 0]"
proof -
  have r: "fst (K s (iphd_request P kip0 pid)) = r"
    using assms by simp
  have nz: "0 \<notin> set [0x74, 0x74, 0x79, 0x69, 0x6E :: byte]" by simp
  have six: "Suc (length [0x74, 0x74, 0x79, 0x69, 0x6E :: byte]) = 6" by simp
  have z: "strcmp a ([0x74, 0x74, 0x79, 0x69, 0x6E] @ [0]) = Inr 0 \<longleftrightarrow>
           take 6 a = [0x74, 0x74, 0x79, 0x69, 0x6E, 0]" for a :: "byte list"
    using strcmp_literal_zero [OF nz, of a] unfolding six by simp
  show ?thesis
  proof (cases "strcmp (ki_wmesg (resp_old r)) ([0x74, 0x74, 0x79, 0x69, 0x6E] @ [0])")
    case (Inl f)
    with z [of "ki_wmesg (resp_old r)"] show ?thesis
      by (simp add: iphd_answer Let_def r)
  next
    case (Inr d)
    with z [of "ki_wmesg (resp_old r)"] show ?thesis
      by (simp add: iphd_answer Let_def r)
  qed
qed


theorem iphd_constants_witness:
  "fst (iphd_sysctl_is_waiting freebsd (replies 0 (snapshot CHR ''S'' ''ttyin''))
          (snapshot CHR ''R'' []) 42 ()) = Inr 1
   \<and> ki_stat (snapshot CHR ''S'' ''ttyin'') = 0x53
   \<and> take 6 (ki_wmesg (snapshot CHR ''S'' ''ttyin'')) = [0x74, 0x74, 0x79, 0x69, 0x6E, 0]"
proof -
  let ?k = "snapshot CHR ''S'' ''ttyin''"
  let ?r = "\<lparr> resp_err = 0, resp_old = ?k, resp_oldlen = 1088 \<rparr>"
  have h1: "replies 0 ?k () (iphd_request freebsd (snapshot CHR ''R'' []) 42) = (?r, ())"
    by (simp add: replies_def iphd_request_def freebsd_def)
  have st: "ki_stat ?k = 0x53"
    by (simp add: snapshot_def)
  have ms: "take 6 (ki_wmesg ?k) = [0x74, 0x74, 0x79, 0x69, 0x6E, 0]"
    by (simp add: snapshot_def text_bytes_def)
  show ?thesis
    using iphd_constants [where K = "replies 0 ?k" and s = "()" and r = ?r
        and s' = "()", OF h1] st ms
    by simp
qed

text \<open>
  C10. The \<^verbatim>\<open>int\<close> the function returns is 0 or 1: for every response whose
  wait-message array has the declared length the result is one of these two values.
\<close>

theorem iphd_returns_0_or_1:
  assumes "K s (iphd_request P kip0 pid) = (r, s')"
    and "kinfo_wf P (resp_old r)"
    and "5 \<le> WMESGLEN P"
  shows "fst (iphd_sysctl_is_waiting P K kip0 pid s) = Inr 0
       \<or> fst (iphd_sysctl_is_waiting P K kip0 pid s) = Inr 1"
proof -
  have r: "fst (K s (iphd_request P kip0 pid)) = r"
    using assms(1) by simp
  obtain d where d: "strcmp (ki_wmesg (resp_old r)) ([0x74, 0x74, 0x79, 0x69, 0x6E] @ [0]) = Inr d"
    using classify_wf [OF assms(2,3)] by blast
  show ?thesis
    using d by (simp add: iphd_answer Let_def r)
qed


theorem iphd_returns_0_or_1_witness:
  "kinfo_wf freebsd (snapshot CHR ''S'' ''select'')
   \<and> 5 \<le> WMESGLEN freebsd
   \<and> (fst (iphd_sysctl_is_waiting freebsd (replies 0 (snapshot CHR ''S'' ''select''))
            (snapshot CHR ''R'' []) 42 ()) = Inr 0
      \<or> fst (iphd_sysctl_is_waiting freebsd (replies 0 (snapshot CHR ''S'' ''select''))
            (snapshot CHR ''R'' []) 42 ()) = Inr 1)"
proof -
  let ?k = "snapshot CHR ''S'' ''select''"
  let ?r = "\<lparr> resp_err = 0, resp_old = ?k, resp_oldlen = 1088 \<rparr>"
  have h1: "replies 0 ?k () (iphd_request freebsd (snapshot CHR ''R'' []) 42) = (?r, ())"
    by (simp add: replies_def iphd_request_def freebsd_def)
  have h2: "kinfo_wf freebsd (resp_old ?r)"
    by (simp add: kinfo_wf_def snapshot_def freebsd_def text_bytes_def)
  have h3: "5 \<le> WMESGLEN freebsd" by (simp add: freebsd_def)
  show ?thesis
    using iphd_returns_0_or_1 [where K = "replies 0 ?k" and s = "()" and r = ?r
        and s' = "()", OF h1 h2 h3] h2 h3
    by simp
qed

section \<open>Failure of the request\<close>

text \<open>
  C3. When the request reports failure (a negative return code), the function answers
  false (0) at once: whatever the negative code is, and whatever the buffer holds,
  even a buffer that would have been classified as waiting or whose comparison would
  have run beyond the array.
\<close>

theorem iphd_failure_false:
  assumes "K s (iphd_request P kip0 pid) = (r, s')"
    and "sint (resp_err r) < 0"
  shows "fst (iphd_sysctl_is_waiting P K kip0 pid s) = Inr 0"
proof -
  have r: "fst (K s (iphd_request P kip0 pid)) = r"
    using assms(1) by simp
  show ?thesis
    using assms(2) by (simp add: iphd_answer Let_def r)
qed

theorem iphd_failure_false_witness:
  "sint (- 1 :: c_int) < 0
   \<and> spec_isWaitingOnTerminalInput (snapshot CHR ''S'' ''ttyin'')
   \<and> fst (iphd_sysctl_is_waiting freebsd (replies (- 1) (snapshot CHR ''S'' ''ttyin''))
            (snapshot CHR ''S'' ''ttyin'') 42 ()) = Inr 0
   \<and> sint (- 12 :: c_int) < 0
   \<and> fst (iphd_sysctl_is_waiting freebsd (replies (- 12) \<lparr> ki_stat = 0x53, ki_wmesg = [] \<rparr>)
            (snapshot CHR ''S'' ''ttyin'') 42 ()) = Inr 0"
proof -
  let ?k = "snapshot CHR ''S'' ''ttyin''"
  let ?e = "\<lparr> ki_stat = 0x53, ki_wmesg = [] \<rparr>"
  let ?r = "\<lparr> resp_err = - 1, resp_old = ?k, resp_oldlen = 1088 \<rparr>"
  let ?q = "\<lparr> resp_err = - 12, resp_old = ?e, resp_oldlen = 1088 \<rparr>"
  have r1: "replies (- 1) ?k () (iphd_request freebsd ?k 42) = (?r, ())"
    by (simp add: replies_def iphd_request_def freebsd_def)
  have q1: "replies (- 12) ?e () (iphd_request freebsd ?k 42) = (?q, ())"
    by (simp add: replies_def iphd_request_def freebsd_def)
  have r2: "sint (resp_err ?r) < 0" and q2: "sint (resp_err ?q) < 0"
    by simp_all
  have sp: "spec_isWaitingOnTerminalInput ?k"
    by (simp add: spec_isWaitingOnTerminalInput_def sleepState_def waitLabel_def
        sleeping_code_def terminal_input_label_def snapshot_def text_bytes_def)
  show ?thesis
    using iphd_failure_false [where K = "replies (- 1) ?k" and s = "()" and r = ?r
        and s' = "()", OF r1 r2]
      iphd_failure_false [where K = "replies (- 12) ?e" and s = "()" and r = ?q
        and s' = "()", OF q1 q2] sp
    by simp
qed

text \<open>
  C4. The specification expects false when the request returns without an error code
  but with a short or empty result. The function does not look at the length the kernel
  stored: with the return code 0, the stored length 0 and nothing written, it classifies
  what the uninitialised buffer held before the call, and answers 1 when that was a
  sleeping state with the terminal-input label.
\<close>

theorem iphd_short_result_classified:
  "resp_err (fst (writes_nothing () (iphd_request freebsd (snapshot CHR ''S'' ''ttyin'') 4242))) = 0
   \<and> resp_oldlen (fst (writes_nothing () (iphd_request freebsd (snapshot CHR ''S'' ''ttyin'') 4242)))
       < sizeof_kinfo_proc freebsd
   \<and> fst (iphd_sysctl_is_waiting freebsd writes_nothing (snapshot CHR ''S'' ''ttyin'') 4242 ())
       = Inr 1"
proof -
  have pad: "replicate (9 - length ''ttyin'') (0 :: byte) = [0, 0, 0, 0]"
    by (simp add: eval_nat_numeral)
  have k: "snapshot CHR ''S'' ''ttyin''
             = \<lparr> ki_stat = 0x53, ki_wmesg = [0x74, 0x74, 0x79, 0x69, 0x6E, 0, 0, 0, 0] \<rparr>"
    unfolding snapshot_def pad by (simp add: text_bytes_def)
  show ?thesis
    unfolding k
    by (simp add: iphd_answer Let_def writes_nothing_def iphd_request_def freebsd_def)
qed

section \<open>A process that is gone\<close>

text \<open>
  C2. The specification expects a boolean and no error for every process identifier, and
  false for a process that does not exist. The function does return a value and no
  fault, but not always false: for an identifier that is in no process table, on a
  kernel that answers the missing process with the return code 0 and nothing written,
  it classifies what its uninitialised buffer held and answers 1 when that was a
  sleeping state with the terminal-input label.
\<close>

theorem iphd_missing_process_answered_true:
  "map_of [(7, snapshot CHR ''S'' ''ttyin'')] (31337 :: c_int) = None
   \<and> resp_err (fst (process_table [(7, snapshot CHR ''S'' ''ttyin'')]
                     (iphd_request freebsd (snapshot CHR ''S'' ''ttyin'') 31337))) = 0
   \<and> fst (iphd_sysctl_is_waiting freebsd process_table (snapshot CHR ''S'' ''ttyin'') 31337
            [(7, snapshot CHR ''S'' ''ttyin'')]) = Inr 1"
  unfolding snapshot_sleeping_ttyin
  by (simp add: iphd_answer Let_def process_table_def iphd_request_def freebsd_def)

text \<open>
  C7. The specification expects the same answer from two calls for the same process
  identifier while the kernel's state is unchanged. The function has no static or global
  variable, but its answer can depend on what its uninitialised buffer held: with the
  same process table before and after, two calls for the same identifier of a process
  that is gone answer 0 when the buffer held a running state, and 1 when it held what a
  call for the waiting process 7 leaves behind.
\<close>

theorem iphd_stale_buffer_changes_answer:
  "snd (iphd_sysctl_is_waiting freebsd process_table (snapshot CHR ''R'' []) 4242
          [(7, snapshot CHR ''S'' ''ttyin'')]) = [(7, snapshot CHR ''S'' ''ttyin'')]
   \<and> fst (iphd_sysctl_is_waiting freebsd process_table (snapshot CHR ''R'' []) 4242
            [(7, snapshot CHR ''S'' ''ttyin'')]) = Inr 0
   \<and> resp_old (fst (process_table [(7, snapshot CHR ''S'' ''ttyin'')]
                     (iphd_request freebsd (snapshot CHR ''R'' []) 7)))
       = snapshot CHR ''S'' ''ttyin''
   \<and> snd (iphd_sysctl_is_waiting freebsd process_table (snapshot CHR ''S'' ''ttyin'') 4242
            [(7, snapshot CHR ''S'' ''ttyin'')]) = [(7, snapshot CHR ''S'' ''ttyin'')]
   \<and> fst (iphd_sysctl_is_waiting freebsd process_table (snapshot CHR ''S'' ''ttyin'') 4242
            [(7, snapshot CHR ''S'' ''ttyin'')]) = Inr 1"
  unfolding snapshot_sleeping_ttyin snapshot_running_empty
  by (simp add: iphd_answer iphd_state Let_def process_table_def iphd_request_def freebsd_def)

section \<open>The read-only request\<close>

text \<open>
  C8. The one request of a call passes no new value: the new-value pointer is
  \<^verbatim>\<open>NULL\<close> and the new-value length is 0. So a kernel that changes its state only
  for requests that carry a new value is in the same state after the call as before it.
  The function has no static or global variable; what the call writes besides is its
  own local buffer and length, which end with the call.
\<close>

theorem iphd_read_only:
  assumes "\<forall>t q. req_new q = None \<and> req_newlen q = 0 \<longrightarrow> snd (K t q) = t"
  shows "req_new (iphd_request P kip0 pid) = None
       \<and> req_newlen (iphd_request P kip0 pid) = 0
       \<and> snd (iphd_sysctl_is_waiting P K kip0 pid s) = s"
proof -
  have n: "req_new (iphd_request P kip0 pid) = None \<and> req_newlen (iphd_request P kip0 pid) = 0"
    by (simp add: iphd_request_def)
  with assms have "snd (K s (iphd_request P kip0 pid)) = s" by blast
  with n show ?thesis by (simp add: iphd_state)
qed

theorem iphd_read_only_witness:
  "snd (counts_new_values (snapshot CHR ''S'' ''ttyin'') 7
          ((iphd_request freebsd (snapshot CHR ''R'' []) 42) \<lparr> req_new := Some [1], req_newlen := 1 \<rparr>))
     = 8
   \<and> req_new (iphd_request freebsd (snapshot CHR ''R'' []) 42) = None
   \<and> req_newlen (iphd_request freebsd (snapshot CHR ''R'' []) 42) = 0
   \<and> snd (iphd_sysctl_is_waiting freebsd (counts_new_values (snapshot CHR ''S'' ''ttyin''))
            (snapshot CHR ''R'' []) 42 7) = 7"
proof -
  let ?K = "counts_new_values (snapshot CHR ''S'' ''ttyin'')"
  have h: "\<forall>t q. req_new q = None \<and> req_newlen q = 0 \<longrightarrow> snd (?K t q) = t"
    by (simp add: counts_new_values_def)
  have w: "snd (?K 7 ((iphd_request freebsd (snapshot CHR ''R'' []) 42)
             \<lparr> req_new := Some [1], req_newlen := 1 \<rparr>)) = 8"
    by (simp add: counts_new_values_def)
  show ?thesis
    using iphd_read_only [where K = ?K and P = freebsd and ?kip0.0 = "snapshot CHR ''R'' []"
        and pid = 42 and s = 7, OF h] w
    by simp
qed

end
